theory Spec2Isabelle
  imports Main
begin

unbundle bit_operations_syntax

section \<open>The binding initializer of pyhdk\<close>

text \<open>
  The package initializer \<^verbatim>\<open>python/pyhdk/__init__.py\<close> is a module body: a sequence of
  statements run once, at import time, against the state of the Python process. The model
  is that sequence, statement by statement, over a record of the process state the body
  reads and writes. Whatever lies outside the wrapper (the platform name, the loader
  constants of \<^verbatim>\<open>os\<close>, \<^verbatim>\<open>os.path.join\<close>, the engine modules and the version accessor)
  is a field of the record \<open>runtime\<close>, so every theorem holds for every engine.
\<close>

subsection \<open>Values, exceptions, events\<close>

type_synonym modname = string

text \<open>Python values that the module body binds to names. Engine objects are opaque.\<close>

datatype pyval = PyInt int | PyStr string | PyModule modname | PyObject nat

type_synonym namespace = "string \<rightharpoonup> pyval"

datatype py_exn =
    RuntimeError string
  | ImportError string
  | KeyError string
  | NameError string
  | TypeError string
  | EngineError string

text \<open>
  The operations on process-wide state that the body performs, in the order it performs
  them. \<open>LoadModule m f\<close> records that the code of module \<open>m\<close> was loaded and run while
  the dlopen flag mask was \<open>f\<close>.
\<close>

datatype event =
    GetDlopenFlags
  | SetDlopenFlags int
  | EnvContains string
  | EnvGet string
  | AddDllDirectory string
  | LoadModule modname int

subsection \<open>The world outside the wrapper\<close>

text \<open>
  Modelled from the spec: the result type of the version accessor. The module
  \<^verbatim>\<open>pyhdk.version\<close> is not part of the sources at hand; the spec calls \<^verbatim>\<open>Version\<close> the
  version accessor, yielding the version string. \<open>version_str rt v\<close> is the outcome of
  calling \<^verbatim>\<open>v.str()\<close>: the exception it raises, or the string it returns.

  \<open>load_module rt m\<close> is the outcome of running the code of engine module \<open>m\<close> for the
  first time: the exception it raises, or the namespace it defines. Loading an engine
  module and calling the accessor are taken to leave the dlopen flags, the environment, the
  DLL search path and the package namespace alone. \<open>path_join\<close> stands for
  \<^verbatim>\<open>os.path.join\<close>, and \<^verbatim>\<open>os.add_dll_directory\<close> is modelled by the effect it documents.
\<close>

record runtime =
  platform :: string
  RTLD_LAZY :: int
  RTLD_GLOBAL :: int
  path_join :: "string \<Rightarrow> string list \<Rightarrow> string"
  load_module :: "modname \<Rightarrow> py_exn + namespace"
  version_str :: "pyval \<Rightarrow> py_exn + string"

subsection \<open>The process state\<close>

text \<open>
  \<open>globals\<close> is the namespace of the package \<^verbatim>\<open>pyhdk\<close> itself; \<open>sys_modules\<close> holds the
  engine modules loaded so far, and \<open>pyhdk_imported\<close> says whether \<^verbatim>\<open>sys.modules\<close> has an
  entry for the package.
\<close>

record proc =
  dlopenflags :: int
  environ :: "string \<rightharpoonup> string"
  dll_directories :: "string list"
  sys_modules :: "modname \<rightharpoonup> namespace"
  pyhdk_imported :: bool
  globals :: namespace
  trace :: "event list"

text \<open>A statement either completes (\<open>None\<close>) or raises; the state is returned in both cases.\<close>

type_synonym stmt = "proc \<Rightarrow> py_exn option \<times> proc"

subsection \<open>Primitives of \<^verbatim>\<open>sys\<close> and \<^verbatim>\<open>os\<close>\<close>

definition log :: "event \<Rightarrow> proc \<Rightarrow> proc" where
  "log e s = s\<lparr>trace := trace s @ [e]\<rparr>"

definition bind_name :: "string \<Rightarrow> pyval \<Rightarrow> proc \<Rightarrow> proc" where
  "bind_name n v s = s\<lparr>globals := (globals s)(n \<mapsto> v)\<rparr>"

definition getdlopenflags :: "proc \<Rightarrow> int \<times> proc" where
  "getdlopenflags s = (dlopenflags s, log GetDlopenFlags s)"

definition setdlopenflags :: "int \<Rightarrow> proc \<Rightarrow> proc" where
  "setdlopenflags n s = log (SetDlopenFlags n) (s\<lparr>dlopenflags := n\<rparr>)"

definition environ_contains :: "string \<Rightarrow> proc \<Rightarrow> bool \<times> proc" where
  "environ_contains k s = (environ s k \<noteq> None, log (EnvContains k) s)"

definition environ_get :: "string \<Rightarrow> proc \<Rightarrow> (py_exn + string) \<times> proc" where
  "environ_get k s =
     (case environ s k of
        None \<Rightarrow> (Inl (KeyError k), log (EnvGet k) s)
      | Some v \<Rightarrow> (Inr v, log (EnvGet k) s))"

definition add_dll_directory :: "string \<Rightarrow> proc \<Rightarrow> proc" where
  "add_dll_directory p s = log (AddDllDirectory p) (s\<lparr>dll_directories := dll_directories s @ [p]\<rparr>)"

subsection \<open>Import statements\<close>

text \<open>
  Importing the submodule \<open>sub\<close> of the package: a module already in \<^verbatim>\<open>sys.modules\<close> is
  returned as it is; otherwise its code is loaded and run under the dlopen flags in force,
  and on success the module is entered in \<^verbatim>\<open>sys.modules\<close> and bound as an attribute of
  the package.
\<close>

definition import_module :: "runtime \<Rightarrow> string \<Rightarrow> proc \<Rightarrow> (py_exn + namespace) \<times> proc" where
  "import_module rt sub s =
     (case sys_modules s (''pyhdk.'' @ sub) of
        Some ns \<Rightarrow> (Inr ns, s)
      | None \<Rightarrow>
          (case load_module rt (''pyhdk.'' @ sub) of
             Inl e \<Rightarrow> (Inl e, log (LoadModule (''pyhdk.'' @ sub) (dlopenflags s)) s)
           | Inr ns \<Rightarrow>
               (Inr ns,
                bind_name sub (PyModule (''pyhdk.'' @ sub))
                  ((log (LoadModule (''pyhdk.'' @ sub) (dlopenflags s)) s)
                     \<lparr>sys_modules := (sys_modules s)(''pyhdk.'' @ sub \<mapsto> ns)\<rparr>))))"

text \<open>The names of \<^verbatim>\<open>from m import a, b, c\<close> are fetched and bound one after the other.\<close>

fun import_names :: "namespace \<Rightarrow> string list \<Rightarrow> stmt" where
  "import_names ns [] s = (None, s)"
| "import_names ns (n # names) s =
     (case ns n of
        None \<Rightarrow> (Some (ImportError (''cannot import name '' @ n)), s)
      | Some v \<Rightarrow> import_names ns names (bind_name n v s))"

definition from_import :: "runtime \<Rightarrow> string \<Rightarrow> string list \<Rightarrow> stmt" where
  "from_import rt sub names s =
     (case import_module rt sub s of
        (Inl e, s1) \<Rightarrow> (Some e, s1)
      | (Inr ns, s1) \<Rightarrow> import_names ns names s1)"

definition import_as :: "runtime \<Rightarrow> string \<Rightarrow> string \<Rightarrow> stmt" where
  "import_as rt sub name s =
     (case import_module rt sub s of
        (Inl e, s1) \<Rightarrow> (Some e, s1)
      | (Inr ns, s1) \<Rightarrow> (None, bind_name name (PyModule (''pyhdk.'' @ sub)) s1))"

subsection \<open>The module body\<close>

text \<open>Statements run in order; the first exception ends the run.\<close>

fun run :: "stmt list \<Rightarrow> stmt" where
  "run [] s = (None, s)"
| "run (a # as) s =
     (case a s of
        (Some e, s1) \<Rightarrow> (Some e, s1)
      | (None, s1) \<Rightarrow> run as s1)"

text \<open>Lines 6 and 7: \<^verbatim>\<open>import sys\<close>, \<^verbatim>\<open>import os\<close>.\<close>

definition import_sys_os :: stmt where
  "import_sys_os s =
     (None, bind_name ''os'' (PyModule ''os'') (bind_name ''sys'' (PyModule ''sys'') s))"

text \<open>Lines 13 to 21: the platform branch.\<close>

definition platform_setup :: "runtime \<Rightarrow> stmt" where
  "platform_setup rt s =
     (if platform rt = ''linux'' then
        (case getdlopenflags s of
           (prev, s1) \<Rightarrow>
             (None, setdlopenflags (RTLD_LAZY rt OR RTLD_GLOBAL rt)
                      (bind_name ''prev'' (PyInt prev) s1)))
      else if platform rt = ''win32'' then
        (case environ_contains ''JAVA_HOME'' s of
           (False, s1) \<Rightarrow>
             (Some (RuntimeError
                ''HDK engine requires JAVA_HOME environment variable to point to Java runtime location.''),
              s1)
         | (True, s1) \<Rightarrow>
             (case environ_get ''JAVA_HOME'' s1 of
                (Inl e, s2) \<Rightarrow> (Some e, s2)
              | (Inr h, s2) \<Rightarrow>
                  (None, add_dll_directory (path_join rt h [''bin'', ''server'']) s2)))
      else (None, s))"

text \<open>Lines 23 to 29: the engine imports.\<close>

definition engine_imports :: "runtime \<Rightarrow> stmt list" where
  "engine_imports rt =
     [from_import rt ''_common'' [''TypeInfo'', ''buildConfig'', ''initLogger''],
      from_import rt ''_execute'' [''Executor''],
      import_as rt ''sql'' ''sql'',
      import_as rt ''storage'' ''storage'',
      from_import rt ''hdk'' [''init''],
      from_import rt ''_builder'' [''QueryBuilder''],
      from_import rt ''version'' [''Version'']]"

definition import_block :: "runtime \<Rightarrow> stmt" where
  "import_block rt = run (engine_imports rt)"

text \<open>Lines 31 and 32: the flags are put back, from the global \<^verbatim>\<open>prev\<close>.\<close>

definition restore_flags :: "runtime \<Rightarrow> stmt" where
  "restore_flags rt s =
     (if platform rt = ''linux'' then
        (case globals s ''prev'' of
           None \<Rightarrow> (Some (NameError ''prev''), s)
         | Some (PyInt p) \<Rightarrow> (None, setdlopenflags p s)
         | Some _ \<Rightarrow> (Some (TypeError ''setdlopenflags''), s))
      else (None, s))"

text \<open>Line 34: \<^verbatim>\<open>__version__ = Version.str()\<close>.\<close>

definition Version_str :: "runtime \<Rightarrow> proc \<Rightarrow> py_exn + string" where
  "Version_str rt s =
     (case globals s ''Version'' of
        None \<Rightarrow> Inl (NameError ''Version'')
      | Some v \<Rightarrow> version_str rt v)"

definition set_version :: "runtime \<Rightarrow> stmt" where
  "set_version rt s =
     (case Version_str rt s of
        Inl e \<Rightarrow> (Some e, s)
      | Inr str \<Rightarrow> (None, bind_name ''__version__'' (PyStr str) s))"

definition pyhdk_init :: "runtime \<Rightarrow> stmt" where
  "pyhdk_init rt =
     run [import_sys_os, platform_setup rt, import_block rt, restore_flags rt, set_version rt]"

text \<open>
  The statement \<^verbatim>\<open>import pyhdk\<close>, as the test module executes it: a package already in
  \<^verbatim>\<open>sys.modules\<close> is not run again; otherwise the body runs in a fresh namespace, and the
  entry in \<^verbatim>\<open>sys.modules\<close> is removed again when the body raises.
\<close>

definition import_pyhdk :: "runtime \<Rightarrow> stmt" where
  "import_pyhdk rt s =
     (if pyhdk_imported s then (None, s)
      else
        (case pyhdk_init rt (s\<lparr>pyhdk_imported := True, globals := Map.empty\<rparr>) of
           (Some e, s1) \<Rightarrow> (Some e, s1\<lparr>pyhdk_imported := False\<rparr>)
         | (None, s1) \<Rightarrow> (None, s1)))"

text \<open>The events an execution of the body adds to the trace.\<close>

definition events_of :: "runtime \<Rightarrow> proc \<Rightarrow> event list" where
  "events_of rt s = drop (length (trace s)) (trace (snd (pyhdk_init rt s)))"

text \<open>\<open>load_under c e\<close>: the event is the load of a module while the flag mask was \<open>c\<close>.\<close>

fun load_under :: "int \<Rightarrow> event \<Rightarrow> bool" where
  "load_under c (LoadModule m f) = (f = c)"
| "load_under c e = False"

fun is_flag_event :: "event \<Rightarrow> bool" where
  "is_flag_event GetDlopenFlags = True"
| "is_flag_event (SetDlopenFlags n) = True"
| "is_flag_event e = False"

text \<open>
  \<open>exports_object s n sub\<close>: the package namespace binds \<open>n\<close>, and binds it to the very
  object that the loaded engine module \<^verbatim>\<open>pyhdk.sub\<close> defines under that name.
  \<open>exports_module s n sub\<close>: the package namespace binds \<open>n\<close> to the loaded engine module
  \<^verbatim>\<open>pyhdk.sub\<close> itself.
\<close>

definition defined_by :: "proc \<Rightarrow> string \<Rightarrow> string \<Rightarrow> pyval option" where
  "defined_by s sub n =
     (case sys_modules s (''pyhdk.'' @ sub) of None \<Rightarrow> None | Some ns \<Rightarrow> ns n)"

definition exports_object :: "proc \<Rightarrow> string \<Rightarrow> string \<Rightarrow> bool" where
  "exports_object s n sub \<longleftrightarrow> globals s n \<noteq> None \<and> globals s n = defined_by s sub n"

definition exports_module :: "proc \<Rightarrow> string \<Rightarrow> string \<Rightarrow> bool" where
  "exports_module s n sub \<longleftrightarrow>
     globals s n = Some (PyModule (''pyhdk.'' @ sub)) \<and> sys_modules s (''pyhdk.'' @ sub) \<noteq> None"

text \<open>
  \<open>initialized rt s\<close>: the package namespace holds everything the body binds, with the
  values the body would bind in state \<open>s\<close>.
\<close>

definition initialized :: "runtime \<Rightarrow> proc \<Rightarrow> bool" where
  "initialized rt s \<longleftrightarrow>
     globals s ''sys'' = Some (PyModule ''sys'')
   \<and> globals s ''os'' = Some (PyModule ''os'')
   \<and> (platform rt = ''linux'' \<longrightarrow> globals s ''prev'' = Some (PyInt (dlopenflags s)))
   \<and> (platform rt = ''win32'' \<longrightarrow> environ s ''JAVA_HOME'' \<noteq> None)
   \<and> exports_object s ''TypeInfo'' ''_common''
   \<and> exports_object s ''buildConfig'' ''_common''
   \<and> exports_object s ''initLogger'' ''_common''
   \<and> exports_object s ''Executor'' ''_execute''
   \<and> exports_module s ''sql'' ''sql''
   \<and> exports_module s ''storage'' ''storage''
   \<and> exports_object s ''init'' ''hdk''
   \<and> exports_object s ''QueryBuilder'' ''_builder''
   \<and> exports_object s ''Version'' ''version''
   \<and> (\<exists>str. Version_str rt s = Inr str \<and> globals s ''__version__'' = Some (PyStr str))"

text \<open>The states between the parts of the body.\<close>

definition after_setup :: "runtime \<Rightarrow> proc \<Rightarrow> proc" where
  "after_setup rt s = snd (platform_setup rt (snd (import_sys_os s)))"

definition after_imports :: "runtime \<Rightarrow> proc \<Rightarrow> proc" where
  "after_imports rt s = snd (import_block rt (after_setup rt s))"

definition after_restore :: "runtime \<Rightarrow> proc \<Rightarrow> proc" where
  "after_restore rt s = snd (restore_flags rt (after_imports rt s))"

subsection \<open>Sample runtimes and states\<close>

text \<open>
  An engine whose seven modules load and define the names the wrapper asks for, one whose
  module \<^verbatim>\<open>pyhdk._execute\<close> fails to load, and a process that has imported nothing yet.
\<close>

definition sample_engine :: "modname \<Rightarrow> py_exn + namespace" where
  "sample_engine m =
     (if m = ''pyhdk._common'' then
        Inr [''TypeInfo'' \<mapsto> PyObject 1, ''buildConfig'' \<mapsto> PyObject 2, ''initLogger'' \<mapsto> PyObject 3]
      else if m = ''pyhdk._execute'' then Inr [''Executor'' \<mapsto> PyObject 4]
      else if m = ''pyhdk.sql'' then Inr [''Calcite'' \<mapsto> PyObject 5, ''RelAlgExecutor'' \<mapsto> PyObject 6]
      else if m = ''pyhdk.storage'' then Inr [''ArrowStorage'' \<mapsto> PyObject 7, ''DataMgr'' \<mapsto> PyObject 8]
      else if m = ''pyhdk.hdk'' then Inr [''init'' \<mapsto> PyObject 9]
      else if m = ''pyhdk._builder'' then Inr [''QueryBuilder'' \<mapsto> PyObject 10]
      else if m = ''pyhdk.version'' then Inr [''Version'' \<mapsto> PyObject 11]
      else Inl (ImportError m))"

definition broken_engine :: "modname \<Rightarrow> py_exn + namespace" where
  "broken_engine m =
     (if m = ''pyhdk._execute'' then Inl (ImportError ''undefined symbol'') else sample_engine m)"

definition sample_version :: "pyval \<Rightarrow> py_exn + string" where
  "sample_version v = (if v = PyObject 11 then Inr ''0.1'' else Inl (TypeError ''str''))"

definition sample_join :: "string \<Rightarrow> string list \<Rightarrow> string" where
  "sample_join h ps = foldl (\<lambda>a b. a @ ''/'' @ b) h ps"

definition sample_runtime :: "string \<Rightarrow> runtime" where
  "sample_runtime p =
     \<lparr>platform = p, RTLD_LAZY = 1, RTLD_GLOBAL = 256, path_join = sample_join,
      load_module = sample_engine, version_str = sample_version\<rparr>"

definition broken_runtime :: "string \<Rightarrow> runtime" where
  "broken_runtime p = (sample_runtime p)\<lparr>load_module := broken_engine\<rparr>"

definition fresh_proc :: "(string \<rightharpoonup> string) \<Rightarrow> proc" where
  "fresh_proc env =
     \<lparr>dlopenflags = 2, environ = env, dll_directories = [], sys_modules = Map.empty,
      pyhdk_imported = False, globals = Map.empty, trace = []\<rparr>"

section \<open>Sequencing and frame lemmas\<close>

text \<open>
  What a run of statements preserves, what the engine imports leave alone, and how a run
  that completes decomposes into its steps.
\<close>

lemma run_invariant:
  assumes "\<And>a s. a \<in> set as \<Longrightarrow> P s \<Longrightarrow> P (snd (a s))" and "P s"
  shows "P (snd (run as s))"
  using assms
proof (induction as arbitrary: s)
  case Nil
  then show ?case by simp
next
  case (Cons a as)
  have step: "P (snd (a s))" using Cons.prems by simp
  show ?case
  proof (cases "a s")
    case (Pair r s1)
    show ?thesis
    proof (cases r)
      case None
      with Pair step Cons show ?thesis by simp
    next
      case (Some e)
      with Pair step show ?thesis by simp
    qed
  qed
qed

lemma fst_run_Cons:
  "fst (run (a # as) s) = None \<longleftrightarrow> fst (a s) = None \<and> fst (run as (snd (a s))) = None"
  by (cases "a s") (auto split: option.splits)

lemma snd_run_Cons:
  "fst (a s) = None \<Longrightarrow> snd (run (a # as) s) = snd (run as (snd (a s)))"
  by (cases "a s") (auto split: option.splits)

lemma run_Cons_raise:
  "fst (a s) = Some e \<Longrightarrow> run (a # as) s = a s"
  by (cases "a s") (auto split: option.splits)

lemma import_module_frame:
  "dlopenflags (snd (import_module rt sub s)) = dlopenflags s"
  "environ (snd (import_module rt sub s)) = environ s"
  "dll_directories (snd (import_module rt sub s)) = dll_directories s"
  "pyhdk_imported (snd (import_module rt sub s)) = pyhdk_imported s"
  by (simp_all add: import_module_def log_def bind_name_def split: option.splits sum.splits)

lemma import_module_globals_other:
  "k \<noteq> sub \<Longrightarrow> globals (snd (import_module rt sub s)) k = globals s k"
  by (simp add: import_module_def log_def bind_name_def split: option.splits sum.splits)

lemma import_names_frame:
  "dlopenflags (snd (import_names ns names s)) = dlopenflags s"
  "environ (snd (import_names ns names s)) = environ s"
  "dll_directories (snd (import_names ns names s)) = dll_directories s"
  "pyhdk_imported (snd (import_names ns names s)) = pyhdk_imported s"
  "sys_modules (snd (import_names ns names s)) = sys_modules s"
  "trace (snd (import_names ns names s)) = trace s"
  by (induction ns names s rule: import_names.induct; simp add: bind_name_def split: option.splits)+

lemma import_names_globals_other:
  "k \<notin> set names \<Longrightarrow> globals (snd (import_names ns names s)) k = globals s k"
  by (induction ns names s rule: import_names.induct) (auto simp: bind_name_def split: option.splits)

lemma from_import_frame:
  "dlopenflags (snd (from_import rt sub names s)) = dlopenflags s"
  "environ (snd (from_import rt sub names s)) = environ s"
  "dll_directories (snd (from_import rt sub names s)) = dll_directories s"
  "pyhdk_imported (snd (from_import rt sub names s)) = pyhdk_imported s"
  unfolding from_import_def
  by (cases "import_module rt sub s"; cases "fst (import_module rt sub s)";
      use import_module_frame[of rt sub s] in \<open>simp add: import_names_frame\<close>)+


lemma from_import_globals_other:
  "k \<noteq> sub \<Longrightarrow> k \<notin> set names \<Longrightarrow>
   globals (snd (from_import rt sub names s)) k = globals s k"
  unfolding from_import_def
  by (cases "import_module rt sub s"; cases "fst (import_module rt sub s)";
      use import_module_globals_other[of k sub rt s] in \<open>simp add: import_names_globals_other\<close>)

lemma import_as_frame:
  "dlopenflags (snd (import_as rt sub name s)) = dlopenflags s"
  "environ (snd (import_as rt sub name s)) = environ s"
  "dll_directories (snd (import_as rt sub name s)) = dll_directories s"
  "pyhdk_imported (snd (import_as rt sub name s)) = pyhdk_imported s"
  unfolding import_as_def
  by (cases "import_module rt sub s"; cases "fst (import_module rt sub s)";
      use import_module_frame[of rt sub s] in \<open>simp add: bind_name_def\<close>)+

lemma import_as_globals_other:
  "k \<noteq> sub \<Longrightarrow> k \<noteq> name \<Longrightarrow>
   globals (snd (import_as rt sub name s)) k = globals s k"
  unfolding import_as_def
  by (cases "import_module rt sub s"; cases "fst (import_module rt sub s)";
      use import_module_globals_other[of k sub rt s] in \<open>simp add: bind_name_def\<close>)

lemma engine_imports_frame:
  assumes "a \<in> set (engine_imports rt)"
  shows "dlopenflags (snd (a s)) = dlopenflags s"
    and "environ (snd (a s)) = environ s"
    and "dll_directories (snd (a s)) = dll_directories s"
    and "pyhdk_imported (snd (a s)) = pyhdk_imported s"
  using assms unfolding engine_imports_def
  by (auto simp: from_import_frame import_as_frame)

lemma engine_imports_prev:
  assumes "a \<in> set (engine_imports rt)"
  shows "globals (snd (a s)) ''prev'' = globals s ''prev''"
  using assms unfolding engine_imports_def
  by (auto simp: from_import_globals_other import_as_globals_other)

lemma import_block_frame:
  "dlopenflags (snd (import_block rt s)) = dlopenflags s"
  "environ (snd (import_block rt s)) = environ s"
  "dll_directories (snd (import_block rt s)) = dll_directories s"
  "pyhdk_imported (snd (import_block rt s)) = pyhdk_imported s"
  "globals (snd (import_block rt s)) ''prev'' = globals s ''prev''"
  unfolding import_block_def
  by (rule run_invariant[where P = "\<lambda>t. dlopenflags t = dlopenflags s"]
           run_invariant[where P = "\<lambda>t. environ t = environ s"]
           run_invariant[where P = "\<lambda>t. dll_directories t = dll_directories s"]
           run_invariant[where P = "\<lambda>t. pyhdk_imported t = pyhdk_imported s"]
           run_invariant[where P = "\<lambda>t. globals t ''prev'' = globals s ''prev''"];
      simp add: engine_imports_frame engine_imports_prev)+

lemma import_sys_os_simps:
  "fst (import_sys_os s) = None"
  "dlopenflags (snd (import_sys_os s)) = dlopenflags s"
  "environ (snd (import_sys_os s)) = environ s"
  "dll_directories (snd (import_sys_os s)) = dll_directories s"
  "sys_modules (snd (import_sys_os s)) = sys_modules s"
  "trace (snd (import_sys_os s)) = trace s"
  by (simp_all add: import_sys_os_def bind_name_def)

lemma platform_setup_linux:
  assumes "platform rt = ''linux''"
  shows "fst (platform_setup rt s) = None"
    and "dlopenflags (snd (platform_setup rt s)) = RTLD_LAZY rt OR RTLD_GLOBAL rt"
    and "globals (snd (platform_setup rt s)) ''prev'' = Some (PyInt (dlopenflags s))"
    and "trace (snd (platform_setup rt s)) =
           trace s @ [GetDlopenFlags, SetDlopenFlags (RTLD_LAZY rt OR RTLD_GLOBAL rt)]"
    and "environ (snd (platform_setup rt s)) = environ s"
    and "dll_directories (snd (platform_setup rt s)) = dll_directories s"
    and "sys_modules (snd (platform_setup rt s)) = sys_modules s"
  using assms
  by (simp_all add: platform_setup_def getdlopenflags_def setdlopenflags_def log_def bind_name_def)

lemma restore_flags_linux:
  assumes "platform rt = ''linux''" and "globals s ''prev'' = Some (PyInt p)"
  shows "restore_flags rt s = (None, setdlopenflags p s)"
  using assms by (simp add: restore_flags_def)

lemma set_version_frame:
  "dlopenflags (snd (set_version rt s)) = dlopenflags s"
  "environ (snd (set_version rt s)) = environ s"
  "dll_directories (snd (set_version rt s)) = dll_directories s"
  "sys_modules (snd (set_version rt s)) = sys_modules s"
  "trace (snd (set_version rt s)) = trace s"
  by (simp_all add: set_version_def bind_name_def split: sum.splits)

text \<open>A body that completes has run all five parts.\<close>

lemma pyhdk_init_completes:
  assumes "fst (pyhdk_init rt s) = None"
  shows "fst (platform_setup rt (snd (import_sys_os s))) = None"
    and "fst (import_block rt (after_setup rt s)) = None"
    and "fst (restore_flags rt (after_imports rt s)) = None"
    and "fst (set_version rt (after_restore rt s)) = None"
    and "snd (pyhdk_init rt s) = snd (set_version rt (after_restore rt s))"
  using assms
  unfolding pyhdk_init_def after_setup_def after_imports_def after_restore_def
  by (simp_all add: fst_run_Cons snd_run_Cons del: run.simps(2))

lemma after_setup_linux:
  assumes "platform rt = ''linux''"
  shows "dlopenflags (after_setup rt s) = RTLD_LAZY rt OR RTLD_GLOBAL rt"
    and "globals (after_setup rt s) ''prev'' = Some (PyInt (dlopenflags s))"
    and "trace (after_setup rt s) =
           trace s @ [GetDlopenFlags, SetDlopenFlags (RTLD_LAZY rt OR RTLD_GLOBAL rt)]"
  unfolding after_setup_def
  by (simp_all add: platform_setup_linux[OF assms] import_sys_os_simps)

lemma after_imports_linux:
  assumes "platform rt = ''linux''"
  shows "dlopenflags (after_imports rt s) = RTLD_LAZY rt OR RTLD_GLOBAL rt"
    and "globals (after_imports rt s) ''prev'' = Some (PyInt (dlopenflags s))"
  unfolding after_imports_def
  by (simp_all add: import_block_frame after_setup_linux[OF assms])

lemma after_restore_linux:
  assumes "platform rt = ''linux''"
  shows "dlopenflags (after_restore rt s) = dlopenflags s"
  unfolding after_restore_def
  by (simp add: restore_flags_linux[OF assms after_imports_linux(2)[OF assms]]
        setdlopenflags_def log_def)

lemma import_module_trace:
  "\<exists>evs. trace (snd (import_module rt sub s)) = trace s @ evs
         \<and> list_all (load_under (dlopenflags s)) evs"
  by (simp add: import_module_def log_def bind_name_def split: option.splits sum.splits)

lemma from_import_trace:
  "\<exists>evs. trace (snd (from_import rt sub names s)) = trace s @ evs
         \<and> list_all (load_under (dlopenflags s)) evs"
  unfolding from_import_def
  by (cases "import_module rt sub s"; cases "fst (import_module rt sub s)";
      use import_module_trace[of rt sub s] in \<open>simp add: import_names_frame\<close>)

lemma import_as_trace:
  "\<exists>evs. trace (snd (import_as rt sub name s)) = trace s @ evs
         \<and> list_all (load_under (dlopenflags s)) evs"
  unfolding import_as_def
  by (cases "import_module rt sub s"; cases "fst (import_module rt sub s)";
      use import_module_trace[of rt sub s] in \<open>simp add: bind_name_def\<close>)

lemma engine_imports_trace:
  assumes "a \<in> set (engine_imports rt)"
  shows "\<exists>evs. trace (snd (a s)) = trace s @ evs \<and> list_all (load_under (dlopenflags s)) evs"
  using assms unfolding engine_imports_def
  by (auto simp: from_import_trace import_as_trace)

lemma run_imports_trace:
  assumes "set as \<subseteq> set (engine_imports rt)"
  shows "dlopenflags (snd (run as s)) = dlopenflags s
         \<and> (\<exists>evs. trace (snd (run as s)) = trace s @ evs
                \<and> list_all (load_under (dlopenflags s)) evs)"
proof (rule run_invariant[where P = "\<lambda>t. dlopenflags t = dlopenflags s
         \<and> (\<exists>evs. trace t = trace s @ evs \<and> list_all (load_under (dlopenflags s)) evs)"])
  fix a :: stmt and t :: proc
  assume a: "a \<in> set as"
    and inv: "dlopenflags t = dlopenflags s
         \<and> (\<exists>evs. trace t = trace s @ evs \<and> list_all (load_under (dlopenflags s)) evs)"
  from a assms have mem: "a \<in> set (engine_imports rt)" by blast
  from inv obtain evs where evs: "trace t = trace s @ evs"
    "list_all (load_under (dlopenflags s)) evs" by blast
  from engine_imports_trace[OF mem, of t] obtain evs' where evs':
    "trace (snd (a t)) = trace t @ evs'" "list_all (load_under (dlopenflags t)) evs'" by blast
  have "trace (snd (a t)) = trace s @ (evs @ evs')" using evs evs' by simp
  moreover have "list_all (load_under (dlopenflags s)) (evs @ evs')"
    using evs evs' inv by simp
  moreover have "dlopenflags (snd (a t)) = dlopenflags s"
    using engine_imports_frame(1)[OF mem, of t] inv by simp
  ultimately show "dlopenflags (snd (a t)) = dlopenflags s
         \<and> (\<exists>evs. trace (snd (a t)) = trace s @ evs
                \<and> list_all (load_under (dlopenflags s)) evs)"
    by blast
next
  show "dlopenflags s = dlopenflags s
         \<and> (\<exists>evs. trace s = trace s @ evs \<and> list_all (load_under (dlopenflags s)) evs)"
    by simp
qed

lemma import_block_trace:
  "\<exists>evs. trace (snd (import_block rt s)) = trace s @ evs
         \<and> list_all (load_under (dlopenflags s)) evs"
  unfolding import_block_def using run_imports_trace[of "engine_imports rt" rt s] by simp

lemma load_under_not_flag: "list_all (load_under c) evs \<Longrightarrow> filter is_flag_event evs = []"
proof (induction evs)
  case Nil
  then show ?case by simp
next
  case (Cons e evs)
  then show ?case by (cases e) simp_all
qed

lemma load_under_mask: "list_all (load_under c) evs \<Longrightarrow> LoadModule m f \<in> set evs \<Longrightarrow> f = c"
  by (induction evs) auto

lemma pyhdk_init_import_raises:
  assumes "fst (import_block rt (after_setup rt s)) = Some e"
    and "fst (platform_setup rt (snd (import_sys_os s))) = None"
  shows "pyhdk_init rt s = import_block rt (after_setup rt s)"
  using assms unfolding pyhdk_init_def after_setup_def
  by (cases "import_block rt (snd (platform_setup rt (snd (import_sys_os s))))";
      cases "platform_setup rt (snd (import_sys_os s))"; cases "import_sys_os s")
     (simp add: import_sys_os_def)


lemma run_Cons_ok: "fst (a s) = None \<Longrightarrow> run (a # as) s = run as (snd (a s))"
  by (cases "a s") (auto split: option.splits)

lemma run_single: "run [a] s = a s"
  by (cases "a s") (auto split: option.splits)

text \<open>The body ends at the first part that raises.\<close>

lemma pyhdk_init_cases:
  "pyhdk_init rt s =
     (if fst (platform_setup rt (snd (import_sys_os s))) \<noteq> None
        then platform_setup rt (snd (import_sys_os s))
      else if fst (import_block rt (after_setup rt s)) \<noteq> None
        then import_block rt (after_setup rt s)
      else if fst (restore_flags rt (after_imports rt s)) \<noteq> None
        then restore_flags rt (after_imports rt s)
      else set_version rt (after_restore rt s))"
  unfolding pyhdk_init_def after_setup_def after_imports_def after_restore_def
  by (auto simp: run_Cons_ok run_Cons_raise run_single import_sys_os_simps simp del: run.simps)

lemma pyhdk_init_trace_linux:
  assumes "platform rt = ''linux''"
  shows "\<exists>evs rest.
           events_of rt s =
             [GetDlopenFlags, SetDlopenFlags (RTLD_LAZY rt OR RTLD_GLOBAL rt)] @ evs @ rest
         \<and> list_all (load_under (RTLD_LAZY rt OR RTLD_GLOBAL rt)) evs
         \<and> (rest = [] \<or> rest = [SetDlopenFlags (dlopenflags s)])"
proof -
  let ?c = "RTLD_LAZY rt OR RTLD_GLOBAL rt"
  obtain evs where evs:
    "trace (after_imports rt s) = trace s @ [GetDlopenFlags, SetDlopenFlags ?c] @ evs"
    "list_all (load_under ?c) evs"
    using import_block_trace[of rt "after_setup rt s"]
    unfolding after_imports_def by (auto simp: after_setup_linux[OF assms])
  have pre: "fst (platform_setup rt (snd (import_sys_os s))) = None"
    by (rule platform_setup_linux(1)[OF assms])
  have restore: "restore_flags rt (after_imports rt s)
                   = (None, setdlopenflags (dlopenflags s) (after_imports rt s))"
    by (rule restore_flags_linux[OF assms after_imports_linux(2)[OF assms]])
  show ?thesis
  proof (cases "fst (import_block rt (after_setup rt s))")
    case (Some e)
    then have "pyhdk_init rt s = import_block rt (after_setup rt s)"
      using pre by (simp add: pyhdk_init_cases)
    then have "events_of rt s = [GetDlopenFlags, SetDlopenFlags ?c] @ evs @ []"
      using evs(1) unfolding events_of_def after_imports_def by simp
    with evs(2) show ?thesis by blast
  next
    case None
    then have "pyhdk_init rt s = set_version rt (after_restore rt s)"
      using pre restore by (simp add: pyhdk_init_cases)
    then have "trace (snd (pyhdk_init rt s)) = trace (after_restore rt s)"
      by (simp add: set_version_frame)
    also have "\<dots> = trace (after_imports rt s) @ [SetDlopenFlags (dlopenflags s)]"
      unfolding after_restore_def using restore by (simp add: setdlopenflags_def log_def)
    finally have "events_of rt s =
        [GetDlopenFlags, SetDlopenFlags ?c] @ evs @ [SetDlopenFlags (dlopenflags s)]"
      using evs(1) unfolding events_of_def by simp
    with evs(2) show ?thesis by blast
  qed
qed

lemma platform_setup_win32_absent:
  assumes "platform rt = ''win32''" and "environ s ''JAVA_HOME'' = None"
  shows "platform_setup rt s =
           (Some (RuntimeError
              ''HDK engine requires JAVA_HOME environment variable to point to Java runtime location.''),
            log (EnvContains ''JAVA_HOME'') s)"
  using assms by (simp add: platform_setup_def environ_contains_def)


lemma platform_setup_other:
  assumes "platform rt \<noteq> ''linux''" and "platform rt \<noteq> ''win32''"
  shows "platform_setup rt s = (None, s)"
  using assms by (simp add: platform_setup_def)

lemma restore_flags_not_linux:
  assumes "platform rt \<noteq> ''linux''"
  shows "restore_flags rt s = (None, s)"
  using assms by (simp add: restore_flags_def)

text \<open>Off linux, everything after the platform branch only loads modules and binds names.\<close>

lemma pyhdk_init_after_setup_not_linux:
  assumes "platform rt \<noteq> ''linux''"
    and "fst (platform_setup rt (snd (import_sys_os s))) = None"
  shows "dlopenflags (snd (pyhdk_init rt s)) = dlopenflags (after_setup rt s)"
    and "environ (snd (pyhdk_init rt s)) = environ (after_setup rt s)"
    and "dll_directories (snd (pyhdk_init rt s)) = dll_directories (after_setup rt s)"
    and "\<exists>evs. trace (snd (pyhdk_init rt s)) = trace (after_setup rt s) @ evs
              \<and> list_all (load_under (dlopenflags (after_setup rt s))) evs"
proof -
  have r: "after_restore rt s = after_imports rt s"
    unfolding after_restore_def by (simp add: restore_flags_not_linux[OF assms(1)])
  have c: "snd (pyhdk_init rt s) = after_imports rt s
         \<or> snd (pyhdk_init rt s) = snd (set_version rt (after_imports rt s))"
    using assms(2) r
    by (simp add: pyhdk_init_cases restore_flags_not_linux[OF assms(1)] after_imports_def)
  have fr: "dlopenflags (snd (pyhdk_init rt s)) = dlopenflags (after_imports rt s)"
    "environ (snd (pyhdk_init rt s)) = environ (after_imports rt s)"
    "dll_directories (snd (pyhdk_init rt s)) = dll_directories (after_imports rt s)"
    "trace (snd (pyhdk_init rt s)) = trace (after_imports rt s)"
    using c by (auto simp: set_version_frame)
  show "dlopenflags (snd (pyhdk_init rt s)) = dlopenflags (after_setup rt s)"
    and "environ (snd (pyhdk_init rt s)) = environ (after_setup rt s)"
    and "dll_directories (snd (pyhdk_init rt s)) = dll_directories (after_setup rt s)"
    using fr unfolding after_imports_def by (simp_all add: import_block_frame)
  show "\<exists>evs. trace (snd (pyhdk_init rt s)) = trace (after_setup rt s) @ evs
              \<and> list_all (load_under (dlopenflags (after_setup rt s))) evs"
    using fr(4) import_block_trace[of rt "after_setup rt s"] unfolding after_imports_def
    by simp
qed

subsection \<open>What the imports bind\<close>

lemma import_module_sys_modules_mono:
  "sys_modules s m = Some ns \<Longrightarrow> sys_modules (snd (import_module rt sub s)) m = Some ns"
  by (auto simp: import_module_def log_def bind_name_def split: option.splits sum.splits)

lemma import_module_loaded:
  "fst (import_module rt sub s) = Inr ns \<Longrightarrow>
   sys_modules (snd (import_module rt sub s)) (''pyhdk.'' @ sub) = Some ns"
  by (auto simp: import_module_def log_def bind_name_def split: option.splits sum.splits)

lemma import_module_cached:
  "sys_modules s (''pyhdk.'' @ sub) = Some ns \<Longrightarrow> import_module rt sub s = (Inr ns, s)"
  by (simp add: import_module_def)


lemma import_names_bound:
  "fst (import_names ns names s) = None \<Longrightarrow> n \<in> set names \<Longrightarrow>
   ns n \<noteq> None \<and> globals (snd (import_names ns names s)) n = ns n"
proof (induction ns names s rule: import_names.induct)
  case (1 ns s)
  then show ?case by simp
next
  case (2 ns k names s)
  then obtain v where v: "ns k = Some v" by (auto split: option.splits)
  show ?case
  proof (cases "n \<in> set names")
    case True
    with 2 v show ?thesis by simp
  next
    case False
    with 2 v show ?thesis
      by (simp add: import_names_globals_other bind_name_def)
  qed
qed

text \<open>Names are only ever rebound to what the namespace holds for them.\<close>

lemma import_names_globals_cases:
  "globals (snd (import_names ns names s)) k = globals s k
   \<or> (ns k \<noteq> None \<and> globals (snd (import_names ns names s)) k = ns k)"
proof (induction ns names s rule: import_names.induct)
  case (1 ns s)
  then show ?case by simp
next
  case (2 ns n names s)
  show ?case
  proof (cases "ns n")
    case None
    then show ?thesis by simp
  next
    case (Some v)
    with 2 show ?thesis by (auto simp: bind_name_def split: if_splits)
  qed
qed

lemma bind_name_idem: "globals s n = Some v \<Longrightarrow> bind_name n v s = s"
  by (simp add: bind_name_def map_upd_triv)

lemma import_names_idem:
  "\<forall>n \<in> set names. ns n \<noteq> None \<and> globals s n = ns n \<Longrightarrow> import_names ns names s = (None, s)"
  by (induction names) (auto simp: bind_name_idem)


lemma from_import_sys_modules_mono:
  "sys_modules s m = Some ns \<Longrightarrow> sys_modules (snd (from_import rt sub names s)) m = Some ns"
  unfolding from_import_def
  by (cases "import_module rt sub s"; cases "fst (import_module rt sub s)";
      use import_module_sys_modules_mono[of s m ns rt sub] in \<open>simp add: import_names_frame\<close>)

lemma import_as_sys_modules_mono:
  "sys_modules s m = Some ns \<Longrightarrow> sys_modules (snd (import_as rt sub name s)) m = Some ns"
  unfolding import_as_def
  by (cases "import_module rt sub s"; cases "fst (import_module rt sub s)";
      use import_module_sys_modules_mono[of s m ns rt sub] in \<open>simp add: bind_name_def\<close>)

lemma exports_object_iff:
  "exports_object s n sub \<longleftrightarrow>
     (\<exists>ns v. sys_modules s (''pyhdk.'' @ sub) = Some ns \<and> ns n = Some v \<and> globals s n = Some v)"
  unfolding exports_object_def defined_by_def
  by (cases "sys_modules s (''pyhdk.'' @ sub)"; cases "globals s n") auto

lemma from_import_establishes:
  assumes "fst (from_import rt sub names s) = None" and "n \<in> set names"
  shows "exports_object (snd (from_import rt sub names s)) n sub"
proof (cases "import_module rt sub s")
  case (Pair r s1)
  with assms(1) obtain ns where r: "r = Inr ns"
    by (cases r) (simp_all add: from_import_def)
  have l: "sys_modules s1 (''pyhdk.'' @ sub) = Some ns"
    using import_module_loaded[of rt sub s ns] Pair r by simp
  have fi: "from_import rt sub names s = import_names ns names s1"
    using Pair r by (simp add: from_import_def)
  from import_names_bound[of ns names s1 n] assms fi
  have "ns n \<noteq> None \<and> globals (snd (from_import rt sub names s)) n = ns n" by simp
  then show ?thesis
    unfolding exports_object_iff using l fi
    by (auto simp: import_names_frame)
qed

lemma from_import_preserves_object:
  assumes "exports_object s n sub" and "n \<noteq> sub'" and "n \<notin> set names' \<or> sub' = sub"
  shows "exports_object (snd (from_import rt sub' names' s)) n sub"
proof -
  from assms(1) obtain ns v where ns: "sys_modules s (''pyhdk.'' @ sub) = Some ns"
    and v: "ns n = Some v" "globals s n = Some v"
    unfolding exports_object_iff by blast
  have sm: "sys_modules (snd (from_import rt sub' names' s)) (''pyhdk.'' @ sub) = Some ns"
    by (rule from_import_sys_modules_mono[OF ns])
  have "globals (snd (from_import rt sub' names' s)) n = Some v"
  proof (cases "n \<in> set names'")
    case False
    then show ?thesis using assms(2) v by (simp add: from_import_globals_other)
  next
    case True
    with assms(3) have same: "sub' = sub" by simp
    have "from_import rt sub' names' s = import_names ns names' s"
      using same by (simp add: from_import_def import_module_cached[OF ns])
    then show ?thesis
      using import_names_globals_cases[of ns names' s n] v by auto
  qed
  with sm v show ?thesis
    unfolding exports_object_iff by simp
qed

lemma import_as_preserves_object:
  assumes "exports_object s n sub" and "n \<noteq> sub'" and "n \<noteq> name'"
  shows "exports_object (snd (import_as rt sub' name' s)) n sub"
proof -
  from assms(1) obtain ns v where ns: "sys_modules s (''pyhdk.'' @ sub) = Some ns"
    and v: "ns n = Some v" "globals s n = Some v"
    unfolding exports_object_iff by blast
  have sm: "sys_modules (snd (import_as rt sub' name' s)) (''pyhdk.'' @ sub) = Some ns"
    by (rule import_as_sys_modules_mono[OF ns])
  have "globals (snd (import_as rt sub' name' s)) n = Some v"
    using assms(2,3) v by (simp add: import_as_globals_other)
  with sm v show ?thesis
    unfolding exports_object_iff by simp
qed

lemma import_as_establishes:
  assumes "fst (import_as rt sub name s) = None"
  shows "exports_module (snd (import_as rt sub name s)) name sub"
proof (cases "import_module rt sub s")
  case (Pair r s1)
  with assms(1) obtain ns where r: "r = Inr ns"
    by (cases r) (simp_all add: import_as_def)
  have l: "sys_modules s1 (''pyhdk.'' @ sub) = Some ns"
    using import_module_loaded[of rt sub s ns] Pair r by simp
  show ?thesis
    unfolding exports_module_def using Pair r l by (simp add: import_as_def bind_name_def)
qed

lemma import_as_preserves_module:
  assumes "exports_module s n sub"
    and "(n \<noteq> sub' \<and> n \<noteq> name') \<or> (sub' = sub \<and> name' = n)"
  shows "exports_module (snd (import_as rt sub' name' s)) n sub"
proof -
  from assms(1) obtain ns where ns: "sys_modules s (''pyhdk.'' @ sub) = Some ns"
    and g: "globals s n = Some (PyModule (''pyhdk.'' @ sub))"
    unfolding exports_module_def by auto
  have sm: "sys_modules (snd (import_as rt sub' name' s)) (''pyhdk.'' @ sub) = Some ns"
    by (rule import_as_sys_modules_mono[OF ns])
  have "globals (snd (import_as rt sub' name' s)) n = Some (PyModule (''pyhdk.'' @ sub))"
  proof (cases "sub' = sub \<and> name' = n")
    case True
    then show ?thesis
      by (simp add: import_as_def import_module_cached[OF ns] bind_name_def)
  next
    case False
    with assms(2) show ?thesis using g by (simp add: import_as_globals_other)
  qed
  with sm show ?thesis unfolding exports_module_def by simp
qed

lemma from_import_preserves_module:
  assumes "exports_module s n sub" and "n \<noteq> sub'" and "n \<notin> set names'"
  shows "exports_module (snd (from_import rt sub' names' s)) n sub"
proof -
  from assms(1) obtain ns where ns: "sys_modules s (''pyhdk.'' @ sub) = Some ns"
    and g: "globals s n = Some (PyModule (''pyhdk.'' @ sub))"
    unfolding exports_module_def by auto
  have sm: "sys_modules (snd (from_import rt sub' names' s)) (''pyhdk.'' @ sub) = Some ns"
    by (rule from_import_sys_modules_mono[OF ns])
  with g assms(2,3) show ?thesis
    unfolding exports_module_def by (simp add: from_import_globals_other)
qed

text \<open>
  A property that one statement of a run establishes when it completes, and that every
  statement of the run preserves, holds after a run that completes.
\<close>

lemma run_establishes:
  assumes "a \<in> set as"
    and "\<And>t. fst (a t) = None \<Longrightarrow> P (snd (a t))"
    and "\<And>b t. b \<in> set as \<Longrightarrow> P t \<Longrightarrow> P (snd (b t))"
    and "fst (run as s) = None"
  shows "P (snd (run as s))"
  using assms
proof (induction as arbitrary: s)
  case Nil
  then show ?case by simp
next
  case (Cons b bs)
  from Cons.prems(4) have ok: "fst (b s) = None" "fst (run bs (snd (b s))) = None"
    by (simp_all add: fst_run_Cons del: run.simps)
  have eq: "snd (run (b # bs) s) = snd (run bs (snd (b s)))"
    using ok(1) by (rule snd_run_Cons)
  show ?case
  proof (cases "a = b")
    case True
    then have "P (snd (b s))" using Cons.prems(2) ok(1) by simp
    then have "P (snd (run bs (snd (b s))))"
      using Cons.prems(3) by (intro run_invariant[where P = P]) simp_all
    with eq show ?thesis by simp
  next
    case False
    with Cons.prems(1) have "a \<in> set bs" by simp
    then have "P (snd (run bs (snd (b s))))"
      using Cons.prems(2,3) ok(2) by (intro Cons.IH) simp_all
    with eq show ?thesis by simp
  qed
qed


lemma exports_object_cong:
  "sys_modules t = sys_modules s \<Longrightarrow> globals t n = globals s n \<Longrightarrow>
   exports_object t n sub = exports_object s n sub"
  by (simp add: exports_object_def defined_by_def)

lemma exports_module_cong:
  "sys_modules t = sys_modules s \<Longrightarrow> globals t n = globals s n \<Longrightarrow>
   exports_module t n sub = exports_module s n sub"
  by (simp add: exports_module_def)

lemma platform_setup_sys_modules:
  "sys_modules (snd (platform_setup rt s)) = sys_modules s"
  by (cases "environ s ''JAVA_HOME''")
     (simp_all add: platform_setup_def getdlopenflags_def setdlopenflags_def
        environ_contains_def environ_get_def add_dll_directory_def log_def bind_name_def)

lemma restore_flags_frame:
  "globals (snd (restore_flags rt s)) = globals s"
  "sys_modules (snd (restore_flags rt s)) = sys_modules s"
  "environ (snd (restore_flags rt s)) = environ s"
  "dll_directories (snd (restore_flags rt s)) = dll_directories s"
  by (simp_all add: restore_flags_def setdlopenflags_def log_def
        split: option.splits pyval.splits)

lemma set_version_globals_other:
  "k \<noteq> ''__version__'' \<Longrightarrow> globals (snd (set_version rt s)) k = globals s k"
  by (simp add: set_version_def bind_name_def split: sum.splits)

text \<open>A completed import block has bound each of the nine names.\<close>

lemma import_block_exports:
  assumes "fst (import_block rt s) = None"
  shows "exports_object (snd (import_block rt s)) ''TypeInfo'' ''_common''"
    and "exports_object (snd (import_block rt s)) ''buildConfig'' ''_common''"
    and "exports_object (snd (import_block rt s)) ''initLogger'' ''_common''"
    and "exports_object (snd (import_block rt s)) ''Executor'' ''_execute''"
    and "exports_module (snd (import_block rt s)) ''sql'' ''sql''"
    and "exports_module (snd (import_block rt s)) ''storage'' ''storage''"
    and "exports_object (snd (import_block rt s)) ''init'' ''hdk''"
    and "exports_object (snd (import_block rt s)) ''QueryBuilder'' ''_builder''"
    and "exports_object (snd (import_block rt s)) ''Version'' ''version''"
proof -
  note ok = assms[unfolded import_block_def]
  note rules = engine_imports_def from_import_establishes from_import_preserves_object
    import_as_preserves_object import_as_establishes import_as_preserves_module
    from_import_preserves_module
  show "exports_object (snd (import_block rt s)) ''TypeInfo'' ''_common''"
    unfolding import_block_def
    by (rule run_establishes[where a = "from_import rt ''_common''
          [''TypeInfo'', ''buildConfig'', ''initLogger'']", OF _ _ _ ok]) (auto simp: rules)
  show "exports_object (snd (import_block rt s)) ''buildConfig'' ''_common''"
    unfolding import_block_def
    by (rule run_establishes[where a = "from_import rt ''_common''
          [''TypeInfo'', ''buildConfig'', ''initLogger'']", OF _ _ _ ok]) (auto simp: rules)
  show "exports_object (snd (import_block rt s)) ''initLogger'' ''_common''"
    unfolding import_block_def
    by (rule run_establishes[where a = "from_import rt ''_common''
          [''TypeInfo'', ''buildConfig'', ''initLogger'']", OF _ _ _ ok]) (auto simp: rules)
  show "exports_object (snd (import_block rt s)) ''Executor'' ''_execute''"
    unfolding import_block_def
    by (rule run_establishes[where a = "from_import rt ''_execute'' [''Executor'']",
          OF _ _ _ ok]) (auto simp: rules)
  show "exports_module (snd (import_block rt s)) ''sql'' ''sql''"
    unfolding import_block_def
    by (rule run_establishes[where a = "import_as rt ''sql'' ''sql''", OF _ _ _ ok])
       (auto simp: rules)
  show "exports_module (snd (import_block rt s)) ''storage'' ''storage''"
    unfolding import_block_def
    by (rule run_establishes[where a = "import_as rt ''storage'' ''storage''", OF _ _ _ ok])
       (auto simp: rules)
  show "exports_object (snd (import_block rt s)) ''init'' ''hdk''"
    unfolding import_block_def
    by (rule run_establishes[where a = "from_import rt ''hdk'' [''init'']", OF _ _ _ ok])
       (auto simp: rules)
  show "exports_object (snd (import_block rt s)) ''QueryBuilder'' ''_builder''"
    unfolding import_block_def
    by (rule run_establishes[where a = "from_import rt ''_builder'' [''QueryBuilder'']",
          OF _ _ _ ok]) (auto simp: rules)
  show "exports_object (snd (import_block rt s)) ''Version'' ''version''"
    unfolding import_block_def
    by (rule run_establishes[where a = "from_import rt ''version'' [''Version'']",
          OF _ _ _ ok]) (auto simp: rules)
qed




lemma pyhdk_init_version:
  assumes "fst (pyhdk_init rt s) = None"
  shows "\<exists>str. Version_str rt (snd (pyhdk_init rt s)) = Inr str
             \<and> globals (snd (pyhdk_init rt s)) ''__version__'' = Some (PyStr str)"
proof -
  note c = pyhdk_init_completes[OF assms]
  from c(4) obtain str where str: "Version_str rt (after_restore rt s) = Inr str"
    by (cases "Version_str rt (after_restore rt s)") (simp_all add: set_version_def)
  have fin: "snd (pyhdk_init rt s) = bind_name ''__version__'' (PyStr str) (after_restore rt s)"
    using c(5) str by (simp add: set_version_def)
  have "Version_str rt (snd (pyhdk_init rt s)) = Inr str"
    using str unfolding fin by (simp add: Version_str_def bind_name_def)
  moreover have "globals (snd (pyhdk_init rt s)) ''__version__'' = Some (PyStr str)"
    unfolding fin by (simp add: bind_name_def)
  ultimately show ?thesis by blast
qed

subsection \<open>Running the body again\<close>

lemma platform_setup_globals_other:
  "k \<noteq> ''prev'' \<Longrightarrow> globals (snd (platform_setup rt s)) k = globals s k"
  by (cases "environ s ''JAVA_HOME''")
     (simp_all add: platform_setup_def getdlopenflags_def setdlopenflags_def
        environ_contains_def environ_get_def add_dll_directory_def log_def bind_name_def)

lemma platform_setup_environ:
  "environ (snd (platform_setup rt s)) = environ s"
  by (cases "environ s ''JAVA_HOME''")
     (simp_all add: platform_setup_def getdlopenflags_def setdlopenflags_def
        environ_contains_def environ_get_def add_dll_directory_def log_def bind_name_def)

lemma platform_setup_win32_ok:
  assumes "platform rt = ''win32''" and "fst (platform_setup rt s) = None"
  shows "environ s ''JAVA_HOME'' \<noteq> None"
  using assms by (cases "environ s ''JAVA_HOME''") (simp_all add: platform_setup_win32_absent)

lemma engine_imports_sys_os:
  assumes "a \<in> set (engine_imports rt)"
  shows "globals (snd (a s)) ''sys'' = globals s ''sys''"
    and "globals (snd (a s)) ''os'' = globals s ''os''"
  using assms unfolding engine_imports_def
  by (auto simp: from_import_globals_other import_as_globals_other)

lemma import_block_sys_os:
  "globals (snd (import_block rt s)) ''sys'' = globals s ''sys''"
  "globals (snd (import_block rt s)) ''os'' = globals s ''os''"
  unfolding import_block_def
  by (rule run_invariant[where P = "\<lambda>t. globals t ''sys'' = globals s ''sys''"]
           run_invariant[where P = "\<lambda>t. globals t ''os'' = globals s ''os''"];
      simp add: engine_imports_sys_os)+

text \<open>A body that completes leaves the package namespace initialized.\<close>

lemma pyhdk_init_initialized:
  assumes "fst (pyhdk_init rt s) = None"
  shows "initialized rt (snd (pyhdk_init rt s))"
proof -
  note c = pyhdk_init_completes[OF assms]
  let ?s' = "snd (pyhdk_init rt s)"
  have gl: "globals ?s' k = globals (after_imports rt s) k" if "k \<noteq> ''__version__''" for k
    using that by (simp add: c(5) set_version_globals_other after_restore_def restore_flags_frame)
  have sys: "globals ?s' ''sys'' = Some (PyModule ''sys'')"
    by (simp add: gl after_imports_def import_block_sys_os after_setup_def
          platform_setup_globals_other import_sys_os_def bind_name_def)
  have os: "globals ?s' ''os'' = Some (PyModule ''os'')"
    by (simp add: gl after_imports_def import_block_sys_os after_setup_def
          platform_setup_globals_other import_sys_os_def bind_name_def)
  have prev: "globals ?s' ''prev'' = Some (PyInt (dlopenflags ?s'))" if l: "platform rt = ''linux''"
  proof -
    have "dlopenflags ?s' = dlopenflags s"
      by (simp add: c(5) set_version_frame after_restore_linux[OF l])
    then show ?thesis by (simp add: gl after_imports_linux[OF l])
  qed
  have env: "environ ?s' ''JAVA_HOME'' \<noteq> None" if w: "platform rt = ''win32''"
  proof -
    have "environ ?s' = environ s"
      by (simp add: c(5) set_version_frame after_restore_def restore_flags_frame
            after_imports_def import_block_frame after_setup_def platform_setup_environ
            import_sys_os_simps)
    then show ?thesis
      using platform_setup_win32_ok[OF w c(1)] by (simp add: import_sys_os_simps)
  qed
  have sm: "sys_modules ?s' = sys_modules (after_imports rt s)"
    by (simp add: c(5) set_version_frame after_restore_def restore_flags_frame)
  have eo: "exports_object ?s' n sub = exports_object (after_imports rt s) n sub"
    if "n \<noteq> ''__version__''" for n sub
    by (rule exports_object_cong[OF sm gl[OF that]])
  have em: "exports_module ?s' n sub = exports_module (after_imports rt s) n sub"
    if "n \<noteq> ''__version__''" for n sub
    by (rule exports_module_cong[OF sm gl[OF that]])
  note ex = import_block_exports[OF c(2), folded after_imports_def]
  note ver = pyhdk_init_version[OF assms]
  show ?thesis
    unfolding initialized_def using sys os prev env ex ver by (simp add: eo em)
qed


lemma from_import_idem:
  assumes "\<forall>n \<in> set names. exports_object s n sub" and "names \<noteq> []"
  shows "from_import rt sub names s = (None, s)"
proof -
  from assms obtain n where "n \<in> set names" by (cases names) auto
  with assms(1) obtain ns where ns: "sys_modules s (''pyhdk.'' @ sub) = Some ns"
    unfolding exports_object_iff by blast
  have "\<forall>n \<in> set names. ns n \<noteq> None \<and> globals s n = ns n"
    using assms(1) ns unfolding exports_object_iff by auto
  then show ?thesis
    by (simp add: from_import_def import_module_cached[OF ns] import_names_idem)
qed

lemma import_as_idem:
  assumes "exports_module s name sub"
  shows "import_as rt sub name s = (None, s)"
proof -
  from assms obtain ns where ns: "sys_modules s (''pyhdk.'' @ sub) = Some ns"
    and g: "globals s name = Some (PyModule (''pyhdk.'' @ sub))"
    unfolding exports_module_def by auto
  show ?thesis
    using g by (simp add: import_as_def import_module_cached[OF ns] bind_name_idem)
qed

lemma import_block_idem:
  assumes "exports_object s ''TypeInfo'' ''_common''"
    and "exports_object s ''buildConfig'' ''_common''"
    and "exports_object s ''initLogger'' ''_common''"
    and "exports_object s ''Executor'' ''_execute''"
    and "exports_module s ''sql'' ''sql''"
    and "exports_module s ''storage'' ''storage''"
    and "exports_object s ''init'' ''hdk''"
    and "exports_object s ''QueryBuilder'' ''_builder''"
    and "exports_object s ''Version'' ''version''"
  shows "import_block rt s = (None, s)"
  unfolding import_block_def engine_imports_def
  using assms by (simp add: from_import_idem import_as_idem)

lemma import_sys_os_idem:
  assumes "globals s ''sys'' = Some (PyModule ''sys'')" and "globals s ''os'' = Some (PyModule ''os'')"
  shows "import_sys_os s = (None, s)"
  using assms by (simp add: import_sys_os_def bind_name_idem)

text \<open>On an initialized state the platform branch completes and rebinds nothing anew.\<close>

lemma platform_setup_initialized:
  assumes "initialized rt s"
  shows "fst (platform_setup rt s) = None"
    and "globals (snd (platform_setup rt s)) = globals s"
    and "platform rt = ''linux'' \<Longrightarrow>
           globals (snd (platform_setup rt s)) ''prev'' = Some (PyInt (dlopenflags s))"
    and "platform rt \<noteq> ''linux'' \<Longrightarrow> dlopenflags (snd (platform_setup rt s)) = dlopenflags s"
proof -
  have p: "platform rt = ''linux'' \<Longrightarrow> globals s ''prev'' = Some (PyInt (dlopenflags s))"
    and e: "platform rt = ''win32'' \<Longrightarrow> environ s ''JAVA_HOME'' \<noteq> None"
    using assms unfolding initialized_def by simp_all
  show "fst (platform_setup rt s) = None"
    using e by (cases "environ s ''JAVA_HOME''")
      (auto simp: platform_setup_def getdlopenflags_def environ_contains_def environ_get_def log_def)
  show "globals (snd (platform_setup rt s)) = globals s"
    using p by (cases "environ s ''JAVA_HOME''")
      (auto simp: platform_setup_def getdlopenflags_def setdlopenflags_def environ_contains_def
         environ_get_def add_dll_directory_def log_def bind_name_def map_upd_triv)
  show "globals (snd (platform_setup rt s)) ''prev'' = Some (PyInt (dlopenflags s))"
    if "platform rt = ''linux''"
    using that by (simp add: platform_setup_linux)
  show "dlopenflags (snd (platform_setup rt s)) = dlopenflags s" if "platform rt \<noteq> ''linux''"
    using that by (cases "environ s ''JAVA_HOME''")
      (auto simp: platform_setup_def environ_contains_def
         environ_get_def add_dll_directory_def log_def)
qed

lemma restore_flags_dlopenflags:
  assumes "platform rt = ''linux'' \<Longrightarrow> globals s ''prev'' = Some (PyInt p)"
    and "platform rt \<noteq> ''linux'' \<Longrightarrow> dlopenflags s = p"
  shows "fst (restore_flags rt s) = None" and "dlopenflags (snd (restore_flags rt s)) = p"
  using assms by (auto simp: restore_flags_def setdlopenflags_def log_def)

lemma set_version_idem:
  assumes "Version_str rt s = Inr str" and "globals s ''__version__'' = Some (PyStr str)"
  shows "set_version rt s = (None, s)"
  using assms by (simp add: set_version_def bind_name_idem)

lemma Version_str_cong: "globals t = globals s \<Longrightarrow> Version_str rt t = Version_str rt s"
  by (simp add: Version_str_def)

text \<open>
  Running the body on an initialized state completes, and gives back the same package
  namespace, the same loaded modules and the same flag mask.
\<close>

lemma pyhdk_init_again:
  assumes "initialized rt s"
  shows "fst (pyhdk_init rt s) = None"
    and "globals (snd (pyhdk_init rt s)) = globals s"
    and "sys_modules (snd (pyhdk_init rt s)) = sys_modules s"
    and "dlopenflags (snd (pyhdk_init rt s)) = dlopenflags s"
proof -
  note i = assms[unfolded initialized_def]
  from i obtain str where str: "Version_str rt s = Inr str"
    "globals s ''__version__'' = Some (PyStr str)" by blast
  have s0: "import_sys_os s = (None, s)"
    using i by (simp add: import_sys_os_idem)
  note ps = platform_setup_initialized[OF assms]
  have a: "after_setup rt s = snd (platform_setup rt s)"
    by (simp add: after_setup_def s0)
  have ag: "globals (after_setup rt s) = globals s"
    and asm: "sys_modules (after_setup rt s) = sys_modules s"
    by (simp_all add: a ps platform_setup_sys_modules)
  have ib: "import_block rt (after_setup rt s) = (None, after_setup rt s)"
    using i by (intro import_block_idem)
      (simp_all add: exports_object_cong[OF asm] exports_module_cong[OF asm] ag)
  have ai: "after_imports rt s = after_setup rt s"
    by (simp add: after_imports_def ib)
  have pv: "globals (after_imports rt s) ''prev'' = Some (PyInt (dlopenflags s))"
    if "platform rt = ''linux''"
    using ps(3)[OF that] by (simp add: ai a)
  have fl: "dlopenflags (after_imports rt s) = dlopenflags s" if "platform rt \<noteq> ''linux''"
    using ps(4)[OF that] by (simp add: ai a)
  note rf = restore_flags_dlopenflags[OF pv fl]
  have rg: "globals (after_restore rt s) = globals s"
    and rsm: "sys_modules (after_restore rt s) = sys_modules s"
    by (simp_all add: after_restore_def restore_flags_frame ai ag asm)
  have rfl: "dlopenflags (after_restore rt s) = dlopenflags s"
    unfolding after_restore_def by (rule rf(2))
  have sv: "set_version rt (after_restore rt s) = (None, after_restore rt s)"
    by (rule set_version_idem[where str = str])
       (simp_all add: Version_str_cong[OF rg] str rg)
  have fin: "pyhdk_init rt s = (None, after_restore rt s)"
    by (simp add: pyhdk_init_cases s0 ps(1) ib rf(1) sv)
  show "fst (pyhdk_init rt s) = None"
    and "globals (snd (pyhdk_init rt s)) = globals s"
    and "sys_modules (snd (pyhdk_init rt s)) = sys_modules s"
    and "dlopenflags (snd (pyhdk_init rt s)) = dlopenflags s"
    by (simp_all add: fin rg rsm rfl)
qed


lemma pyhdk_init_imported:
  assumes "fst (pyhdk_init rt s) = None"
  shows "pyhdk_imported (snd (pyhdk_init rt s)) = pyhdk_imported s"
proof -
  note c = pyhdk_init_completes[OF assms]
  have a: "pyhdk_imported (after_setup rt s) = pyhdk_imported s"
    unfolding after_setup_def
    by (cases "environ (snd (import_sys_os s)) ''JAVA_HOME''")
       (simp_all add: platform_setup_def getdlopenflags_def setdlopenflags_def
          environ_contains_def environ_get_def add_dll_directory_def log_def bind_name_def
          import_sys_os_def)
  have r: "pyhdk_imported (after_restore rt s) = pyhdk_imported (after_imports rt s)"
    unfolding after_restore_def
    by (simp add: restore_flags_def setdlopenflags_def log_def split: option.splits pyval.splits)
  have v: "pyhdk_imported (snd (set_version rt (after_restore rt s)))
             = pyhdk_imported (after_restore rt s)"
    by (simp add: set_version_def bind_name_def split: sum.splits)
  show ?thesis
    by (simp add: c(5) v r a after_imports_def import_block_frame)
qed

lemma import_pyhdk_registers:
  assumes "fst (import_pyhdk rt s) = None"
  shows "pyhdk_imported (snd (import_pyhdk rt s))"
proof (cases "pyhdk_imported s")
  case True
  then show ?thesis by (simp add: import_pyhdk_def)
next
  case False
  let ?s0 = "s\<lparr>pyhdk_imported := True, globals := Map.empty\<rparr>"
  from assms False have ok: "fst (pyhdk_init rt ?s0) = None"
    by (cases "pyhdk_init rt ?s0"; cases "fst (pyhdk_init rt ?s0)")
       (simp_all add: import_pyhdk_def)
  then have "snd (import_pyhdk rt s) = snd (pyhdk_init rt ?s0)"
    using False by (cases "pyhdk_init rt ?s0") (simp add: import_pyhdk_def)
  then show ?thesis using pyhdk_init_imported[OF ok] by simp
qed

section \<open>Properties of the initializer\<close>

text \<open>
  C1. On linux, whatever the dlopen flag mask was when the body started, a body that
  completes leaves the mask at that value: the mask saved in \<^verbatim>\<open>prev\<close> is written back.
\<close>

theorem dlopenflags_round_trip:
  assumes "platform rt = ''linux''" and "fst (pyhdk_init rt s) = None"
  shows "dlopenflags (snd (pyhdk_init rt s)) = dlopenflags s"
  using pyhdk_init_completes(5)[OF assms(2)] after_restore_linux[OF assms(1)]
  by (simp add: set_version_frame)

theorem dlopenflags_round_trip_witness:
  "platform (sample_runtime ''linux'') = ''linux''
   \<and> fst (pyhdk_init (sample_runtime ''linux'') (fresh_proc Map.empty)) = None
   \<and> dlopenflags (fresh_proc Map.empty) = 2
   \<and> dlopenflags (snd (pyhdk_init (sample_runtime ''linux'') (fresh_proc Map.empty))) = 2"
proof -
  have p: "platform (sample_runtime ''linux'') = ''linux''"
    by (simp add: sample_runtime_def)
  have ok: "fst (pyhdk_init (sample_runtime ''linux'') (fresh_proc Map.empty)) = None"
    by code_simp
  have f: "dlopenflags (fresh_proc Map.empty) = 2"
    by (simp add: fresh_proc_def)
  from dlopenflags_round_trip[OF p ok] p ok f show ?thesis by simp
qed

text \<open>
  C3. On linux, when the import of an engine submodule raises, the body ends there with
  that exception: the dlopen flag mask is left at \<^verbatim>\<open>RTLD_LAZY | RTLD_GLOBAL\<close>, and the only
  flag operations performed are the read and the one write of the platform branch; the
  saved mask is not written back.
\<close>

theorem import_failure_leaves_flags:
  assumes "platform rt = ''linux''"
    and "fst (import_block rt (after_setup rt s)) = Some e"
  shows "fst (pyhdk_init rt s) = Some e
       \<and> dlopenflags (snd (pyhdk_init rt s)) = RTLD_LAZY rt OR RTLD_GLOBAL rt
       \<and> filter is_flag_event (events_of rt s) =
           [GetDlopenFlags, SetDlopenFlags (RTLD_LAZY rt OR RTLD_GLOBAL rt)]
       \<and> (dlopenflags s \<noteq> RTLD_LAZY rt OR RTLD_GLOBAL rt \<longrightarrow>
            dlopenflags (snd (pyhdk_init rt s)) \<noteq> dlopenflags s)"
proof -
  have eq: "pyhdk_init rt s = import_block rt (after_setup rt s)"
    using pyhdk_init_import_raises[OF assms(2)] platform_setup_linux(1)[OF assms(1)] by simp
  have fl: "dlopenflags (snd (pyhdk_init rt s)) = RTLD_LAZY rt OR RTLD_GLOBAL rt"
    using eq by (simp add: import_block_frame after_setup_linux[OF assms(1)])
  obtain evs where evs:
    "trace (snd (import_block rt (after_setup rt s))) = trace (after_setup rt s) @ evs"
    "list_all (load_under (dlopenflags (after_setup rt s))) evs"
    using import_block_trace[of rt "after_setup rt s"] by blast
  have "events_of rt s =
          [GetDlopenFlags, SetDlopenFlags (RTLD_LAZY rt OR RTLD_GLOBAL rt)] @ evs"
    unfolding events_of_def using eq evs(1) by (simp add: after_setup_linux[OF assms(1)])
  then have ev: "filter is_flag_event (events_of rt s) =
          [GetDlopenFlags, SetDlopenFlags (RTLD_LAZY rt OR RTLD_GLOBAL rt)]"
    using load_under_not_flag[OF evs(2)] by simp
  from eq assms(2) fl ev show ?thesis by simp
qed

theorem import_failure_leaves_flags_witness:
  "platform (broken_runtime ''linux'') = ''linux''
   \<and> fst (import_block (broken_runtime ''linux'')
            (after_setup (broken_runtime ''linux'') (fresh_proc Map.empty)))
       = Some (ImportError ''undefined symbol'')
   \<and> fst (pyhdk_init (broken_runtime ''linux'') (fresh_proc Map.empty))
       = Some (ImportError ''undefined symbol'')
   \<and> dlopenflags (fresh_proc Map.empty) = 2
   \<and> dlopenflags (snd (pyhdk_init (broken_runtime ''linux'') (fresh_proc Map.empty))) = 257"
proof -
  have p: "platform (broken_runtime ''linux'') = ''linux''"
    by (simp add: broken_runtime_def sample_runtime_def)
  have r: "fst (import_block (broken_runtime ''linux'')
            (after_setup (broken_runtime ''linux'') (fresh_proc Map.empty)))
       = Some (ImportError ''undefined symbol'')"
    by code_simp
  have f: "dlopenflags (fresh_proc Map.empty) = 2"
    by (simp add: fresh_proc_def)
  have m: "RTLD_LAZY (broken_runtime ''linux'') OR RTLD_GLOBAL (broken_runtime ''linux'') = 257"
    by (simp add: broken_runtime_def sample_runtime_def)
  from import_failure_leaves_flags[OF p r] p r f m show ?thesis by simp
qed

text \<open>
  C4. On linux, the import block starts with the dlopen flag mask equal to
  \<^verbatim>\<open>RTLD_LAZY | RTLD_GLOBAL\<close>, whatever the mask was before; the mask has that value after
  every one of the import statements, and every engine module that is loaded is loaded
  under exactly that mask.
\<close>

theorem imports_run_under_lazy_global:
  assumes "platform rt = ''linux''"
  shows "(\<forall>n. dlopenflags (snd (run (take n (engine_imports rt)) (after_setup rt s)))
              = RTLD_LAZY rt OR RTLD_GLOBAL rt)
       \<and> (\<forall>m f. LoadModule m f \<in> set (events_of rt s) \<longrightarrow> f = RTLD_LAZY rt OR RTLD_GLOBAL rt)"
proof -
  let ?c = "RTLD_LAZY rt OR RTLD_GLOBAL rt"
  have a: "dlopenflags (snd (run (take n (engine_imports rt)) (after_setup rt s))) = ?c" for n
    using run_imports_trace[of "take n (engine_imports rt)" rt "after_setup rt s"]
    by (simp add: set_take_subset after_setup_linux[OF assms])
  have b: "f = ?c" if "LoadModule m f \<in> set (events_of rt s)" for m f
  proof -
    obtain evs rest where tr:
      "events_of rt s = [GetDlopenFlags, SetDlopenFlags ?c] @ evs @ rest"
      "list_all (load_under ?c) evs"
      "rest = [] \<or> rest = [SetDlopenFlags (dlopenflags s)]"
      using pyhdk_init_trace_linux[OF assms, of s] by blast
    from that tr(1,3) have "LoadModule m f \<in> set evs" by auto
    with tr(2) show ?thesis by (rule load_under_mask)
  qed
  from a b show ?thesis by blast
qed


theorem imports_run_under_lazy_global_witness:
  "platform (sample_runtime ''linux'') = ''linux''
   \<and> dlopenflags (fresh_proc Map.empty) = 2
   \<and> dlopenflags (snd (run (take 3 (engine_imports (sample_runtime ''linux'')))
         (after_setup (sample_runtime ''linux'') (fresh_proc Map.empty)))) = 257
   \<and> LoadModule ''pyhdk.sql'' 257
        \<in> set (events_of (sample_runtime ''linux'') (fresh_proc Map.empty))
   \<and> (257::int) = RTLD_LAZY (sample_runtime ''linux'') OR RTLD_GLOBAL (sample_runtime ''linux'')"
proof -
  have p: "platform (sample_runtime ''linux'') = ''linux''"
    by (simp add: sample_runtime_def)
  have f: "dlopenflags (fresh_proc Map.empty) = 2"
    by (simp add: fresh_proc_def)
  have m: "RTLD_LAZY (sample_runtime ''linux'') OR RTLD_GLOBAL (sample_runtime ''linux'') = 257"
    by (simp add: sample_runtime_def)
  have l: "LoadModule ''pyhdk.sql'' 257
        \<in> set (events_of (sample_runtime ''linux'') (fresh_proc Map.empty))"
    by code_simp
  from imports_run_under_lazy_global[OF p, of "fresh_proc Map.empty"]
  have "dlopenflags (snd (run (take 3 (engine_imports (sample_runtime ''linux'')))
         (after_setup (sample_runtime ''linux'') (fresh_proc Map.empty))))
        = RTLD_LAZY (sample_runtime ''linux'') OR RTLD_GLOBAL (sample_runtime ''linux'')"
    by blast
  then have a: "dlopenflags (snd (run (take 3 (engine_imports (sample_runtime ''linux'')))
         (after_setup (sample_runtime ''linux'') (fresh_proc Map.empty)))) = 257"
    using m by (rule trans)
  from p f a l m[symmetric] show ?thesis by blast
qed

text \<open>
  C2. On win32 with \<^verbatim>\<open>JAVA_HOME\<close> absent from the environment, the body raises the
  RuntimeError with its message; the membership test on the environment is the only
  operation it has performed, so no engine module has been loaded and the DLL search path
  is as it was.
\<close>

theorem missing_java_home_raises:
  assumes "platform rt = ''win32''" and "environ s ''JAVA_HOME'' = None"
  shows "fst (pyhdk_init rt s) =
           Some (RuntimeError
             ''HDK engine requires JAVA_HOME environment variable to point to Java runtime location.'')
       \<and> events_of rt s = [EnvContains ''JAVA_HOME'']
       \<and> sys_modules (snd (pyhdk_init rt s)) = sys_modules s
       \<and> dll_directories (snd (pyhdk_init rt s)) = dll_directories s"
proof -
  have e: "environ (snd (import_sys_os s)) ''JAVA_HOME'' = None"
    using assms(2) by (simp add: import_sys_os_simps)
  have "pyhdk_init rt s = platform_setup rt (snd (import_sys_os s))"
    by (simp add: pyhdk_init_cases platform_setup_win32_absent[OF assms(1) e])
  then show ?thesis
    unfolding events_of_def
    by (simp add: platform_setup_win32_absent[OF assms(1) e] log_def import_sys_os_simps)
qed

theorem missing_java_home_raises_witness:
  "platform (sample_runtime ''win32'') = ''win32''
   \<and> environ (fresh_proc Map.empty) ''JAVA_HOME'' = None
   \<and> fst (pyhdk_init (sample_runtime ''win32'') (fresh_proc Map.empty)) =
           Some (RuntimeError
             ''HDK engine requires JAVA_HOME environment variable to point to Java runtime location.'')
   \<and> events_of (sample_runtime ''win32'') (fresh_proc Map.empty) = [EnvContains ''JAVA_HOME'']"
proof -
  have p: "platform (sample_runtime ''win32'') = ''win32''"
    by (simp add: sample_runtime_def)
  have e: "environ (fresh_proc Map.empty) ''JAVA_HOME'' = None"
    by (simp add: fresh_proc_def)
  from missing_java_home_raises[OF p e] p e show ?thesis by blast
qed



text \<open>
  C6. On a platform that is neither linux nor win32, the body leaves the dlopen flag
  mask, the environment and the DLL search path as they were, and every event of the
  execution is the load of an engine module: the mask is not read or written, the
  environment is not consulted, and no directory is added.
\<close>

theorem other_platform_no_setup:
  assumes "platform rt \<noteq> ''linux''" and "platform rt \<noteq> ''win32''"
  shows "dlopenflags (snd (pyhdk_init rt s)) = dlopenflags s
       \<and> environ (snd (pyhdk_init rt s)) = environ s
       \<and> dll_directories (snd (pyhdk_init rt s)) = dll_directories s
       \<and> list_all (load_under (dlopenflags s)) (events_of rt s)"
proof -
  note ps = platform_setup_other[OF assms]
  have ok: "fst (platform_setup rt (snd (import_sys_os s))) = None"
    by (simp add: ps)
  have a: "dlopenflags (after_setup rt s) = dlopenflags s"
    "environ (after_setup rt s) = environ s"
    "dll_directories (after_setup rt s) = dll_directories s"
    "trace (after_setup rt s) = trace s"
    unfolding after_setup_def by (simp_all add: ps import_sys_os_simps)
  note fr = pyhdk_init_after_setup_not_linux[OF assms(1) ok]
  obtain evs where evs:
    "trace (snd (pyhdk_init rt s)) = trace s @ evs"
    "list_all (load_under (dlopenflags s)) evs"
    using fr(4) a(1,4) by auto
  have "events_of rt s = evs"
    unfolding events_of_def using evs(1) by simp
  then show ?thesis
    using fr(1,2,3) a(1,2,3) evs(2) by simp
qed

theorem other_platform_no_setup_witness:
  "platform (sample_runtime ''darwin'') \<noteq> ''linux''
   \<and> platform (sample_runtime ''darwin'') \<noteq> ''win32''
   \<and> dlopenflags (snd (pyhdk_init (sample_runtime ''darwin'') (fresh_proc Map.empty))) = 2
   \<and> dll_directories (snd (pyhdk_init (sample_runtime ''darwin'') (fresh_proc Map.empty))) = []
   \<and> list_all (load_under 2) (events_of (sample_runtime ''darwin'') (fresh_proc Map.empty))"
proof -
  have p: "platform (sample_runtime ''darwin'') \<noteq> ''linux''"
    "platform (sample_runtime ''darwin'') \<noteq> ''win32''"
    by (simp_all add: sample_runtime_def)
  have f: "dlopenflags (fresh_proc Map.empty) = 2" "dll_directories (fresh_proc Map.empty) = []"
    by (simp_all add: fresh_proc_def)
  from other_platform_no_setup[OF p, of "fresh_proc Map.empty"] p show ?thesis
    by (simp only: f simp_thms)
qed





text \<open>
  C8. After a first initialization that completed, a second one raises nothing and changes
  nothing that can be observed of the flag mask, the exports and the version string. This
  holds when the body is executed once more on the state the first execution left (the
  flag mask, the whole package namespace, with the exports and \<^verbatim>\<open>__version__\<close>, and the
  loaded modules are the same afterwards), and it holds for the statement \<^verbatim>\<open>import pyhdk\<close>,
  which finds the package in \<^verbatim>\<open>sys.modules\<close> and leaves the state exactly as it is.
\<close>

theorem second_initialization_idempotent:
  "(fst (pyhdk_init rt s) = None \<longrightarrow>
      fst (pyhdk_init rt (snd (pyhdk_init rt s))) = None
    \<and> dlopenflags (snd (pyhdk_init rt (snd (pyhdk_init rt s))))
        = dlopenflags (snd (pyhdk_init rt s))
    \<and> globals (snd (pyhdk_init rt (snd (pyhdk_init rt s))))
        = globals (snd (pyhdk_init rt s))
    \<and> sys_modules (snd (pyhdk_init rt (snd (pyhdk_init rt s))))
        = sys_modules (snd (pyhdk_init rt s)))
   \<and> (fst (import_pyhdk rt s) = None \<longrightarrow>
        import_pyhdk rt (snd (import_pyhdk rt s)) = (None, snd (import_pyhdk rt s)))"
proof (intro conjI impI)
  assume ok: "fst (pyhdk_init rt s) = None"
  note again = pyhdk_init_again[OF pyhdk_init_initialized[OF ok]]
  show "fst (pyhdk_init rt (snd (pyhdk_init rt s))) = None" by (rule again(1))
  show "dlopenflags (snd (pyhdk_init rt (snd (pyhdk_init rt s))))
        = dlopenflags (snd (pyhdk_init rt s))" by (rule again(4))
  show "globals (snd (pyhdk_init rt (snd (pyhdk_init rt s))))
        = globals (snd (pyhdk_init rt s))" by (rule again(2))
  show "sys_modules (snd (pyhdk_init rt (snd (pyhdk_init rt s))))
        = sys_modules (snd (pyhdk_init rt s))" by (rule again(3))
next
  assume "fst (import_pyhdk rt s) = None"
  then have "pyhdk_imported (snd (import_pyhdk rt s))" by (rule import_pyhdk_registers)
  then show "import_pyhdk rt (snd (import_pyhdk rt s)) = (None, snd (import_pyhdk rt s))"
    by (simp add: import_pyhdk_def)
qed

theorem second_initialization_idempotent_witness:
  "fst (pyhdk_init (sample_runtime ''linux'') (fresh_proc Map.empty)) = None
   \<and> fst (import_pyhdk (sample_runtime ''linux'') (fresh_proc Map.empty)) = None
   \<and> fst (pyhdk_init (sample_runtime ''linux'')
            (snd (pyhdk_init (sample_runtime ''linux'') (fresh_proc Map.empty)))) = None
   \<and> dlopenflags (snd (pyhdk_init (sample_runtime ''linux'')
            (snd (pyhdk_init (sample_runtime ''linux'') (fresh_proc Map.empty))))) = 2
   \<and> import_pyhdk (sample_runtime ''linux'')
        (snd (import_pyhdk (sample_runtime ''linux'') (fresh_proc Map.empty)))
       = (None, snd (import_pyhdk (sample_runtime ''linux'') (fresh_proc Map.empty)))"
proof -
  have ok: "fst (pyhdk_init (sample_runtime ''linux'') (fresh_proc Map.empty)) = None"
    by code_simp
  have ok': "fst (import_pyhdk (sample_runtime ''linux'') (fresh_proc Map.empty)) = None"
    by code_simp
  have f: "dlopenflags (snd (pyhdk_init (sample_runtime ''linux'') (fresh_proc Map.empty))) = 2"
    by code_simp
  from second_initialization_idempotent[of "sample_runtime ''linux''" "fresh_proc Map.empty"]
    ok ok' f
  show ?thesis by (simp only: simp_thms)
qed

end
